theory Spec2Isabelle
  imports Complex_Main "HOL-Library.AList"
begin

section \<open>The tabular data the services work on\<close>

text \<open>
  Both services (\<^verbatim>\<open>agent_bot/main.py\<close> and \<^verbatim>\<open>app/main.py\<close>) hold a pandas
  \<^verbatim>\<open>DataFrame\<close> produced by \<^verbatim>\<open>pd.read_csv\<close> or \<^verbatim>\<open>pd.read_excel\<close>. A column of
  such a frame is a homogeneous array whose element type the reader inferred:
  \<^verbatim>\<open>bool\<close>, \<^verbatim>\<open>int64\<close>, \<^verbatim>\<open>uint64\<close>, \<^verbatim>\<open>float64\<close>, \<^verbatim>\<open>datetime64[ns]\<close> or \<^verbatim>\<open>object\<close>.
  Integer and boolean arrays cannot hold a missing value; a \<^verbatim>\<open>float64\<close> array holds
  it as NaN, a \<^verbatim>\<open>datetime64\<close> array as NaT, an \<^verbatim>\<open>object\<close> array as \<^verbatim>\<open>None\<close>/NaN.

  A \<^verbatim>\<open>float64\<close> value that is not NaN is a finite number or one of the two
  infinities. A finite double is given by its exact value, a rational; the two
  zeros of IEEE arithmetic are one value here. NaN is \<open>None\<close>.
\<close>

datatype f8 = Finite rat | PosInf | NegInf

datatype cell = NA | Flt f8 | IntV int | Bln bool | Ts int | Str string

datatype series =
    Bool "bool list"
  | Int64 "int list"
  | UInt64 "nat list"
  | Float64 "f8 option list"
  | Datetime64 "int option list"
  | Object "cell list"

datatype dtype = dt_bool | dt_int64 | dt_uint64 | dt_float64 | dt_datetime64 | dt_object

text \<open>\<^verbatim>\<open>Series.dtype\<close> and \<^verbatim>\<open>dtype.kind\<close>, numpy's one-character type code.\<close>

fun dtype_of :: "series \<Rightarrow> dtype" where
  "dtype_of (Bool _) = dt_bool"
| "dtype_of (Int64 _) = dt_int64"
| "dtype_of (UInt64 _) = dt_uint64"
| "dtype_of (Float64 _) = dt_float64"
| "dtype_of (Datetime64 _) = dt_datetime64"
| "dtype_of (Object _) = dt_object"

fun kind :: "dtype \<Rightarrow> char" where
  "kind dt_bool = CHR ''b''"
| "kind dt_int64 = CHR ''i''"
| "kind dt_uint64 = CHR ''u''"
| "kind dt_float64 = CHR ''f''"
| "kind dt_datetime64 = CHR ''M''"
| "kind dt_object = CHR ''O''"

text \<open>\<^verbatim>\<open>str(dtype)\<close>, as the summary reports it.\<close>

fun dtype_str :: "dtype \<Rightarrow> string" where
  "dtype_str dt_bool = ''bool''"
| "dtype_str dt_int64 = ''int64''"
| "dtype_str dt_uint64 = ''uint64''"
| "dtype_str dt_float64 = ''float64''"
| "dtype_str dt_datetime64 = ''datetime64[ns]''"
| "dtype_str dt_object = ''object''"

text \<open>The cells of a column as Python values, in row order.\<close>

definition float_cell :: "f8 option \<Rightarrow> cell" where
  "float_cell x = (case x of None \<Rightarrow> NA | Some v \<Rightarrow> Flt v)"

definition time_cell :: "int option \<Rightarrow> cell" where
  "time_cell x = (case x of None \<Rightarrow> NA | Some t \<Rightarrow> Ts t)"

fun values_of :: "series \<Rightarrow> cell list" where
  "values_of (Bool bs) = map Bln bs"
| "values_of (Int64 ns) = map IntV ns"
| "values_of (UInt64 ns) = map (\<lambda>n. IntV (int n)) ns"
| "values_of (Float64 xs) = map float_cell xs"
| "values_of (Datetime64 ts) = map time_cell ts"
| "values_of (Object cs) = cs"

text \<open>\<^verbatim>\<open>pd.isna\<close> on one cell.\<close>

fun isna :: "cell \<Rightarrow> bool" where
  "isna NA = True"
| "isna _ = False"

text \<open>
  A frame is the ordered list of its labelled columns. The readers make the labels
  of a frame distinct (a repeated header \<^verbatim>\<open>a\<close> is read as \<^verbatim>\<open>a\<close>, \<^verbatim>\<open>a.1\<close>, ...).
  \<^verbatim>\<open>df[col]\<close> is \<open>map_of df col\<close>; \<^verbatim>\<open>df[col] = s\<close> is \<open>AList.update col s df\<close>, which
  replaces the column in place and appends a column that is not there yet.
\<close>

type_synonym dataframe = "(string \<times> series) list"

definition columns :: "dataframe \<Rightarrow> string list" where
  "columns df = map fst df"

section \<open>Responses and errors\<close>

text \<open>
  \<^verbatim>\<open>HTTPException(status_code, detail)\<close> is what the handlers raise on purpose;
  \<^verbatim>\<open>KeyError\<close> (a failed column lookup) and \<^verbatim>\<open>ValueError\<close> (raised by pandas) are
  not caught by any handler. A handler returns \<open>exn + 'a\<close>.
\<close>

datatype exn = HTTPException nat string | KeyError string | ValueError string

text \<open>
  A histogram as it is handed to the plotting library: title, axis labels and the
  data that is binned. The PNG bytes are a function of it.
\<close>

record figure =
  title :: string
  xlabel :: string
  ylabel :: string
  data :: "cell list"

text \<open>
  The body of a \<^verbatim>\<open>StreamingResponse\<close>: the frame that \<^verbatim>\<open>to_excel(buf, index=False)\<close>
  serialises, or the entries of the ZIP archive in the order they were written.
\<close>

datatype payload = Xlsx dataframe | ZipFile "(string \<times> figure) list"

record streaming_response =
  body :: payload
  media_type :: string
  headers :: "(string \<times> string) list"

definition xlsx_media_type :: string where
  "xlsx_media_type = ''application/vnd.openxmlformats-officedocument.spreadsheetml.sheet''"

section \<open>Arithmetic in \<^verbatim>\<open>float64\<close>\<close>

text \<open>
  An operation of IEEE 754 binary64 returns its exact result rounded to the nearest
  double, a tie going to the double with the even significand. A double is an
  integer \<open>m\<close> with \<open>\<bar>m\<bar> < 2 ^ 53\<close> times \<open>2 ^ e\<close> with \<open>- 1074 \<le> e \<le> 971\<close>; a result of
  magnitude \<open>2 ^ 1024\<close> or more after rounding is an infinity.
\<close>

definition pow2 :: "int \<Rightarrow> rat" where
  "pow2 e = (if 0 \<le> e then 2 ^ nat e else 1 / 2 ^ nat (- e))"

text \<open>The number of binary digits of a positive integer.\<close>

function bit_length :: "int \<Rightarrow> int" where
  "bit_length n = (if n \<le> 0 then 0 else 1 + bit_length (n div 2))"
  by pat_completeness auto
termination
  by (relation "measure nat") auto

declare bit_length.simps [simp del]

text \<open>\<open>ilog2 a\<close> for \<open>a > 0\<close>: the integer \<open>k\<close> with \<open>2 ^ k \<le> a < 2 ^ (k + 1)\<close>.\<close>

definition ilog2 :: "rat \<Rightarrow> int" where
  "ilog2 a =
     (let (p, q) = quotient_of a;
          d = bit_length p - bit_length q
      in if pow2 d \<le> a then d else d - 1)"

definition round_half_even :: "rat \<Rightarrow> int" where
  "round_half_even y =
     (let f = \<lfloor>y\<rfloor>; r = y - of_int f
      in if r < 1 / 2 then f else if 1 / 2 < r then f + 1 else if even f then f else f + 1)"

definition round_f8 :: "rat \<Rightarrow> f8" where
  "round_f8 x =
     (if x = 0 then Finite 0
      else
        let a = \<bar>x\<bar>;
            e = max (ilog2 a - 52) (- 1074);
            m = round_half_even (a / pow2 e)
        in if 971 < e \<or> (e = 971 \<and> 2 ^ 53 \<le> m) then (if 0 < x then PosInf else NegInf)
           else Finite (sgn x * of_int m * pow2 e))"

text \<open>Addition; the sum of the two opposite infinities is NaN.\<close>

fun fadd :: "f8 \<Rightarrow> f8 \<Rightarrow> f8 option" where
  "fadd (Finite a) (Finite b) = Some (round_f8 (a + b))"
| "fadd PosInf NegInf = None"
| "fadd NegInf PosInf = None"
| "fadd PosInf _ = Some PosInf"
| "fadd _ PosInf = Some PosInf"
| "fadd NegInf _ = Some NegInf"
| "fadd _ NegInf = Some NegInf"

text \<open>Division by a positive whole number below \<open>2 ^ 53\<close> (a count of rows, or 2),
  which is a double itself.\<close>

fun fdiv_nat :: "f8 \<Rightarrow> nat \<Rightarrow> f8" where
  "fdiv_nat (Finite a) n = round_f8 (a / of_nat n)"
| "fdiv_nat PosInf n = PosInf"
| "fdiv_nat NegInf n = NegInf"

text \<open>The order of the doubles that are not NaN.\<close>

fun f8_le :: "f8 \<Rightarrow> f8 \<Rightarrow> bool" where
  "f8_le NegInf _ = True"
| "f8_le _ PosInf = True"
| "f8_le (Finite a) (Finite b) = (a \<le> b)"
| "f8_le _ _ = False"

text \<open>
  \<^verbatim>\<open>ndarray.sum()\<close> of a \<^verbatim>\<open>float64\<close> array without NaN. numpy adds the elements in
  an order of its own choice (in blocks and pairwise for longer arrays), and the
  rounded result depends on that order: the routine is a parameter \<open>np_sum\<close> of
  every function that sums. \<open>seq_sum\<close> is the routine that adds from left to right,
  starting from 0.
\<close>

type_synonym summation = "f8 list \<Rightarrow> f8 option"

definition seq_sum :: summation where
  "seq_sum xs = foldl (\<lambda>acc x. case acc of None \<Rightarrow> None | Some a \<Rightarrow> fadd a x) (Some (Finite 0)) xs"

section \<open>The pandas operations the handlers call\<close>

text \<open>
  \<^verbatim>\<open>values.astype("f8")\<close>, the numeric reading that the reductions of pandas take
  of a column: an integer is rounded to a double, a boolean is 0 or 1, a missing
  cell is NaN. Text and timestamps have no such reading; the handlers reduce only
  columns of the numeric dtypes.
\<close>

fun to_f8 :: "cell \<Rightarrow> f8 option" where
  "to_f8 (Flt x) = Some x"
| "to_f8 (IntV n) = Some (round_f8 (of_int n))"
| "to_f8 (Bln b) = Some (Finite (if b then 1 else 0))"
| "to_f8 _ = None"

definition f8_values :: "series \<Rightarrow> f8 option list" where
  "f8_values s = map to_f8 (values_of s)"

text \<open>The values that are not NaN, in their order.\<close>

fun dropna :: "'a option list \<Rightarrow> 'a list" where
  "dropna [] = []"
| "dropna (None # xs) = dropna xs"
| "dropna (Some x # xs) = x # dropna xs"

text \<open>
  \<^verbatim>\<open>Series.mean()\<close> (\<^verbatim>\<open>nanops.nanmean\<close>). The sum is taken over the array with 0 in the
  place of every NaN: in \<^verbatim>\<open>float64\<close> for a float or integer column, in \<^verbatim>\<open>int64\<close>, so
  exactly, for a boolean column. It is divided, in \<^verbatim>\<open>float64\<close>, by the count of the
  values that are present; the result is NaN when that count is 0.
\<close>

definition the_sum :: "summation \<Rightarrow> series \<Rightarrow> f8 option" where
  "the_sum np_sum s =
     (case s of
        Bool bs \<Rightarrow> Some (round_f8 (of_nat (length (filter (\<lambda>b. b) bs))))
      | _ \<Rightarrow> np_sum (map (\<lambda>x. case x of None \<Rightarrow> Finite 0 | Some v \<Rightarrow> v) (f8_values s)))"

definition notna_count :: "series \<Rightarrow> nat" where
  "notna_count s = length (filter (\<lambda>x. x \<noteq> None) (f8_values s))"

definition mean :: "summation \<Rightarrow> series \<Rightarrow> f8 option" where
  "mean np_sum s =
     (let count = notna_count s
      in if count > 0 then map_option (\<lambda>t. fdiv_nat t count) (the_sum np_sum s) else None)"

text \<open>\<^verbatim>\<open>pd.api.types.is_numeric_dtype\<close>: the integer, float and boolean dtypes.\<close>

fun is_numeric_dtype :: "dtype \<Rightarrow> bool" where
  "is_numeric_dtype dt_bool = True"
| "is_numeric_dtype dt_int64 = True"
| "is_numeric_dtype dt_uint64 = True"
| "is_numeric_dtype dt_float64 = True"
| "is_numeric_dtype dt_datetime64 = False"
| "is_numeric_dtype dt_object = False"

text \<open>
  \<^verbatim>\<open>Series.median()\<close> (\<^verbatim>\<open>nanops.nanmedian\<close>): of the values that are present, sorted,
  the middle one, or the mean of the two middle ones (their sum divided by 2, both
  in \<^verbatim>\<open>float64\<close>) when their number is even; NaN when there is none.
\<close>

fun insort_f8 :: "f8 \<Rightarrow> f8 list \<Rightarrow> f8 list" where
  "insort_f8 x [] = [x]"
| "insort_f8 x (y # ys) = (if f8_le x y then x # y # ys else y # insort_f8 x ys)"

definition sort_f8 :: "f8 list \<Rightarrow> f8 list" where
  "sort_f8 xs = foldr insort_f8 xs []"

definition nanmedian :: "f8 list \<Rightarrow> f8 option" where
  "nanmedian vs =
     (let s = sort_f8 vs; n = length s
      in if n = 0 then None
         else if odd n then Some (s ! (n div 2))
         else map_option (\<lambda>t. fdiv_nat t 2) (fadd (s ! (n div 2 - 1)) (s ! (n div 2))))"

definition median :: "series \<Rightarrow> f8 option" where
  "median s = nanmedian (dropna (f8_values s))"

text \<open>
  \<^verbatim>\<open>Series.mode()\<close>: the values that are present and occur most often, each once,
  sorted when Python can compare them with each other (numbers with numbers, text
  with text by code point, timestamps with timestamps) and in order of first
  occurrence when the sort raises \<^verbatim>\<open>TypeError\<close>.
\<close>

definition max_count :: "cell list \<Rightarrow> nat" where
  "max_count vs = foldr (\<lambda>v m. max (count_list vs v) m) vs 0"

fun str_le :: "string \<Rightarrow> string \<Rightarrow> bool" where
  "str_le [] _ = True"
| "str_le (c # cs) [] = False"
| "str_le (c # cs) (d # ds) =
     ((of_char c :: nat) < of_char d \<or> (c = d \<and> str_le cs ds))"

text \<open>The exact value of a number, by which Python compares it.\<close>

fun number_of :: "cell \<Rightarrow> f8 option" where
  "number_of (Flt x) = Some x"
| "number_of (IntV n) = Some (Finite (of_int n))"
| "number_of (Bln b) = Some (Finite (if b then 1 else 0))"
| "number_of _ = None"

fun cell_le :: "cell \<Rightarrow> cell \<Rightarrow> bool" where
  "cell_le (Str a) (Str b) = str_le a b"
| "cell_le (Ts a) (Ts b) = (a \<le> b)"
| "cell_le a b =
     (case (number_of a, number_of b) of (Some x, Some y) \<Rightarrow> f8_le x y | _ \<Rightarrow> True)"

fun cell_class :: "cell \<Rightarrow> nat" where
  "cell_class NA = 0"
| "cell_class (Flt _) = 1"
| "cell_class (IntV _) = 1"
| "cell_class (Bln _) = 1"
| "cell_class (Ts _) = 2"
| "cell_class (Str _) = 3"

fun insort_cell :: "cell \<Rightarrow> cell list \<Rightarrow> cell list" where
  "insort_cell x [] = [x]"
| "insort_cell x (y # ys) = (if cell_le x y then x # y # ys else y # insort_cell x ys)"

definition sort_cells :: "cell list \<Rightarrow> cell list" where
  "sort_cells xs = foldr insort_cell xs []"

definition safe_sort :: "cell list \<Rightarrow> cell list" where
  "safe_sort xs =
     (case xs of
        [] \<Rightarrow> []
      | x # _ \<Rightarrow> if list_all (\<lambda>y. cell_class y = cell_class x) xs then sort_cells xs else xs)"

definition mode :: "series \<Rightarrow> cell list" where
  "mode s =
     (let vs = filter (\<lambda>c. \<not> isna c) (values_of s);
          modes = filter (\<lambda>v. count_list vs v = max_count vs) (rev (remdups (rev vs)))
      in safe_sort modes)"

text \<open>
  \<^verbatim>\<open>Series.fillna(value)\<close>: a new column with \<open>value\<close> in place of every missing
  cell. Filling with NaN, or a column with no missing cell, changes nothing; a
  value the array cannot hold turns the result into an \<^verbatim>\<open>object\<close> column.
\<close>

definition fillna :: "series \<Rightarrow> cell \<Rightarrow> series" where
  "fillna s v =
     (if isna v \<or> \<not> list_ex isna (values_of s) then s
      else case (s, v) of
          (Float64 xs, Flt m) \<Rightarrow> Float64 (map (\<lambda>x. case x of None \<Rightarrow> Some m | Some r \<Rightarrow> Some r) xs)
        | (Datetime64 ts, Ts t) \<Rightarrow> Datetime64 (map (\<lambda>x. case x of None \<Rightarrow> Some t | Some u \<Rightarrow> Some u) ts)
        | _ \<Rightarrow> Object (map (\<lambda>c. if isna c then v else c) (values_of s)))"

text \<open>
  \<^verbatim>\<open>df.select_dtypes(include="number")\<close>: the columns of an integer or float dtype,
  in the frame's order. \<^verbatim>\<open>bool\<close> is not a number here.
\<close>

fun is_number_dtype :: "dtype \<Rightarrow> bool" where
  "is_number_dtype dt_int64 = True"
| "is_number_dtype dt_uint64 = True"
| "is_number_dtype dt_float64 = True"
| "is_number_dtype dt_bool = False"
| "is_number_dtype dt_datetime64 = False"
| "is_number_dtype dt_object = False"

definition select_dtypes_number :: "dataframe \<Rightarrow> dataframe" where
  "select_dtypes_number df = filter (\<lambda>(col, s). is_number_dtype (dtype_of s)) df"

text \<open>\<^verbatim>\<open>df.shape[0]\<close> and \<^verbatim>\<open>df.isnull().sum().sum()\<close>.\<close>

definition n_rows :: "dataframe \<Rightarrow> nat" where
  "n_rows df = (case df of [] \<Rightarrow> 0 | (col, s) # _ \<Rightarrow> length (values_of s))"

definition isnull_sum :: "dataframe \<Rightarrow> nat" where
  "isnull_sum df = sum_list (map (\<lambda>(col, s). length (filter isna (values_of s))) df)"

text \<open>
  Frames live in a store and are passed by reference: \<^verbatim>\<open>df.copy()\<close> allocates a new
  frame with the same contents, \<^verbatim>\<open>df[col] = s\<close> changes the frame the reference
  points to.
\<close>

type_synonym ref = nat
type_synonym heap = "dataframe list"

definition df_copy :: "heap \<Rightarrow> ref \<Rightarrow> heap \<times> ref" where
  "df_copy h df = (h @ [h ! df], length h)"

definition setitem :: "heap \<Rightarrow> ref \<Rightarrow> string \<Rightarrow> series \<Rightarrow> heap" where
  "setitem h df col s = h[df := AList.update col s (h ! df)]"

section \<open>Python string methods\<close>

text \<open>
  A string is a list of characters with the code points 0 to 255 (Latin-1); text
  with a character beyond them is not a value of this type. On these characters
  \<^verbatim>\<open>str.lower\<close> maps \<^verbatim>\<open>A\<close> to \<^verbatim>\<open>Z\<close> and the letters 0xC0 to 0xDE other than the
  multiplication sign 0xD7 to the character 0x20 further on, and white space, which
  \<^verbatim>\<open>str.strip\<close> and \<^verbatim>\<open>str.split\<close> (no argument) remove, is the space, 0x09 to 0x0D,
  0x1C to 0x1F, 0x85 and 0xA0.
\<close>

definition upper_letters :: string where
  "upper_letters = ''ABCDEFGHIJKLMNOPQRSTUVWXYZ'' @
     [CHR 0xC0, CHR 0xC1, CHR 0xC2, CHR 0xC3, CHR 0xC4, CHR 0xC5, CHR 0xC6, CHR 0xC7, CHR 0xC8, CHR 0xC9, CHR 0xCA, CHR 0xCB, CHR 0xCC, CHR 0xCD, CHR 0xCE, CHR 0xCF,
      CHR 0xD0, CHR 0xD1, CHR 0xD2, CHR 0xD3, CHR 0xD4, CHR 0xD5, CHR 0xD6, CHR 0xD8, CHR 0xD9, CHR 0xDA, CHR 0xDB, CHR 0xDC, CHR 0xDD, CHR 0xDE]"

definition lower_letters :: string where
  "lower_letters = ''abcdefghijklmnopqrstuvwxyz'' @
     [CHR 0xE0, CHR 0xE1, CHR 0xE2, CHR 0xE3, CHR 0xE4, CHR 0xE5, CHR 0xE6, CHR 0xE7, CHR 0xE8, CHR 0xE9, CHR 0xEA, CHR 0xEB, CHR 0xEC, CHR 0xED, CHR 0xEE, CHR 0xEF,
      CHR 0xF0, CHR 0xF1, CHR 0xF2, CHR 0xF3, CHR 0xF4, CHR 0xF5, CHR 0xF6, CHR 0xF8, CHR 0xF9, CHR 0xFA, CHR 0xFB, CHR 0xFC, CHR 0xFD, CHR 0xFE]"

definition lower_char :: "char \<Rightarrow> char" where
  "lower_char c = (case map_of (zip upper_letters lower_letters) c of None \<Rightarrow> c | Some d \<Rightarrow> d)"

definition lower :: "string \<Rightarrow> string" where
  "lower s = map lower_char s"

definition isspace :: "char \<Rightarrow> bool" where
  "isspace c \<longleftrightarrow>
     c \<in> set [CHR '' '', CHR 0x09, CHR 0x0A, CHR 0x0B, CHR 0x0C, CHR 0x0D,
              CHR 0x1C, CHR 0x1D, CHR 0x1E, CHR 0x1F, CHR 0x85, CHR 0xA0]"

definition strip :: "string \<Rightarrow> string" where
  "strip s = rev (dropWhile isspace (rev (dropWhile isspace s)))"

text \<open>\<open>split_from tok s\<close>: the words of \<open>s\<close>, after the characters \<open>tok\<close> (reversed)
  of a word that has begun.\<close>

fun split_from :: "string \<Rightarrow> string \<Rightarrow> string list" where
  "split_from tok [] = (if tok = [] then [] else [rev tok])"
| "split_from tok (c # cs) =
     (if isspace c then (if tok = [] then split_from [] cs else rev tok # split_from [] cs)
      else split_from (c # tok) cs)"

definition split :: "string \<Rightarrow> string list" where
  "split s = split_from [] s"

definition startswith :: "string \<Rightarrow> string \<Rightarrow> bool" where
  "startswith s p \<longleftrightarrow> take (length p) s = p"

definition endswith :: "string \<Rightarrow> string \<Rightarrow> bool" where
  "endswith s p \<longleftrightarrow> length p \<le> length s \<and> drop (length s - length p) s = p"

section \<open>The chat service: \<^verbatim>\<open>agent_bot/main.py\<close>\<close>

subsection \<open>\<^verbatim>\<open>load_dataframe\<close>\<close>

text \<open>
  \<^verbatim>\<open>pd.read_excel\<close> and \<^verbatim>\<open>pd.read_csv\<close> are parameters: a reader takes the bytes
  of the upload and returns a frame, or raises an exception whose text is \<open>Inl\<close>.
\<close>

type_synonym reader = "string \<Rightarrow> string + dataframe"

record upload_file =
  filename :: string
  content :: string

definition load_dataframe :: "reader \<Rightarrow> reader \<Rightarrow> upload_file \<Rightarrow> exn + dataframe" where
  "load_dataframe read_excel read_csv file =
     (let content = content file;
          filename = lower (filename file);
          attempt =
            (if endswith filename ''.xlsx'' \<or> endswith filename ''.xls'' then read_excel content
             else if endswith filename ''.csv'' then read_csv content
             else Inl ''Unsupported file format. Please upload .xls/.xlsx or .csv'')
      in case attempt of
           Inl exc \<Rightarrow> Inl (HTTPException 400 (''Failed to read file: '' @ exc))
         | Inr df \<Rightarrow> Inr df)"

subsection \<open>\<^verbatim>\<open>analyze_summary\<close> and \<^verbatim>\<open>analyze_describe\<close>\<close>

record summary =
  shape :: "nat \<times> nat"
  column_names :: "string list"
  missing_values :: nat
  dtypes :: "(string \<times> string) list"

definition analyze_summary :: "dataframe \<Rightarrow> summary" where
  "analyze_summary df =
     \<lparr> shape = (n_rows df, length df),
       column_names = columns df,
       missing_values = isnull_sum df,
       dtypes = map (\<lambda>(col, s). (col, dtype_str (dtype_of s))) df \<rparr>"

text \<open>
  What a handler of the chat service returns: a message, the summary, the
  statistics of \<^verbatim>\<open>df.describe(include="all")\<close> and \<^verbatim>\<open>df.corr(numeric_only=True)\<close>
  (a function of the frame they are computed from, which stands for them here), or
  a \<^verbatim>\<open>StreamingResponse\<close>.
\<close>

datatype reply =
    Message string
  | Summary summary
  | Describe dataframe
  | Streaming streaming_response

text \<open>\<^verbatim>\<open>df.describe\<close> raises \<^verbatim>\<open>ValueError\<close> on a frame without columns, and no handler
  catches it.\<close>

definition analyze_describe :: "dataframe \<Rightarrow> exn + reply" where
  "analyze_describe df =
     (if df = [] then Inl (ValueError ''Cannot describe a DataFrame without columns'')
      else Inr (Describe df))"

subsection \<open>\<^verbatim>\<open>analyze_clean\<close>\<close>

definition fill_value :: "series \<Rightarrow> cell" where
  "fill_value s =
     (if kind (dtype_of s) \<in> set ''biufc'' then float_cell (median s)
      else case mode s of [] \<Rightarrow> Str [] | m # _ \<Rightarrow> m)"

fun clean_loop :: "string list \<Rightarrow> heap \<Rightarrow> ref \<Rightarrow> exn + heap" where
  "clean_loop [] h cleaned = Inr h"
| "clean_loop (col # cols) h cleaned =
     (case map_of (h ! cleaned) col of
        None \<Rightarrow> Inl (KeyError col)
      | Some s \<Rightarrow> clean_loop cols (setitem h cleaned col (fillna s (fill_value s))) cleaned)"

definition analyze_clean :: "heap \<Rightarrow> ref \<Rightarrow> (exn + streaming_response) \<times> heap" where
  "analyze_clean h df =
     (let (h1, cleaned) = df_copy h df
      in case clean_loop (columns (h1 ! cleaned)) h1 cleaned of
           Inl e \<Rightarrow> (Inl e, h1)
         | Inr h2 \<Rightarrow>
             (Inr \<lparr> body = Xlsx (h2 ! cleaned),
                    media_type = xlsx_media_type,
                    headers = [(''Content-Disposition'',
                                ''attachment; filename=cleaned_data.xlsx'')] \<rparr>,
              h2))"

subsection \<open>\<^verbatim>\<open>analyze_visualize\<close>\<close>

definition hist :: "string \<Rightarrow> series \<Rightarrow> figure" where
  "hist col s =
     \<lparr> title = col, xlabel = col, ylabel = ''Frequency'',
       data = filter (\<lambda>c. \<not> isna c) (values_of s) \<rparr>"

fun hist_loop :: "dataframe \<Rightarrow> string list \<Rightarrow> (string \<times> figure) list \<Rightarrow> exn + (string \<times> figure) list" where
  "hist_loop df [] zf = Inr zf"
| "hist_loop df (col # cols) zf =
     (case map_of df col of
        None \<Rightarrow> Inl (KeyError col)
      | Some s \<Rightarrow> hist_loop df cols (zf @ [(col @ ''.png'', hist col s)]))"

definition analyze_visualize :: "dataframe \<Rightarrow> exn + streaming_response" where
  "analyze_visualize df =
     (let numeric_cols = columns (select_dtypes_number df)
      in if length numeric_cols = 0
         then Inl (HTTPException 400 ''No numeric columns to visualize.'')
         else
           let numeric_cols = take 3 numeric_cols
           in case hist_loop df numeric_cols [] of
                Inl e \<Rightarrow> Inl e
              | Inr zf \<Rightarrow>
                  Inr \<lparr> body = ZipFile zf,
                        media_type = ''application/zip'',
                        headers = [(''Content-Disposition'',
                                    ''attachment; filename=charts.zip'')] \<rparr>)"

subsection \<open>\<^verbatim>\<open>analyze_forecast\<close>\<close>

definition quoted :: "string \<Rightarrow> string" where
  "quoted s = [CHR 0x27] @ s @ [CHR 0x27]"

definition analyze_forecast :: "summation \<Rightarrow> dataframe \<Rightarrow> string \<Rightarrow> exn + streaming_response" where
  "analyze_forecast np_sum df target =
     (case map_of df target of
        None \<Rightarrow> Inl (HTTPException 400 (''Column '' @ quoted target @ '' not found in dataset.''))
      | Some s \<Rightarrow>
          if \<not> is_numeric_dtype (dtype_of s)
          then Inl (HTTPException 400
                 (''Column '' @ quoted target @ '' must be numeric for forecasting.''))
          else
            let mean_value = mean np_sum s;
                forecast_df = [(target, Float64 [mean_value])]
            in Inr \<lparr> body = Xlsx forecast_df,
                     media_type = xlsx_media_type,
                     headers = [(''Content-Disposition'',
                                 ''attachment; filename=forecast_'' @ target @ ''.xlsx'')] \<rparr>)"

subsection \<open>\<^verbatim>\<open>process_command\<close>\<close>

text \<open>
  The state of the process: the store of frames and the global \<^verbatim>\<open>_dataframe\<close>,
  a reference into it once a file has been uploaded.
\<close>

record state =
  heap :: heap
  dataframe_global :: "ref option"

text \<open>The loop over \<^verbatim>\<open>parts[1:]\<close> that stops at the first \<^verbatim>\<open>target=\<close> part.\<close>

fun find_target :: "string list \<Rightarrow> string option" where
  "find_target [] = None"
| "find_target (part # parts) =
     (if startswith part ''target='' then Some (drop (length ''target='') part)
      else find_target parts)"

definition no_data_message :: string where
  "no_data_message = ''No data uploaded yet. Please upload a dataset first.''"

definition target_prompt :: string where
  "target_prompt =
     ''Please specify the target column, e.g. '' @ quoted ''forecast target=Sales''"

definition help_message :: string where
  "help_message =
     ''Unrecognized command. Available commands: summary, clean, describe, visualize, forecast target=<column>''"

definition process_command :: "summation \<Rightarrow> state \<Rightarrow> string \<Rightarrow> (exn + reply) \<times> state" where
  "process_command np_sum st command =
     (case dataframe_global st of
        None \<Rightarrow> (Inr (Message no_data_message), st)
      | Some df \<Rightarrow>
          let cmd = lower (strip command)
          in if startswith cmd ''summary'' then (Inr (Summary (analyze_summary (heap st ! df))), st)
             else if startswith cmd ''clean'' then
               (case analyze_clean (heap st) df of
                  (r, h) \<Rightarrow> (map_sum id Streaming r, st\<lparr>heap := h\<rparr>))
             else if startswith cmd ''describe'' then (analyze_describe (heap st ! df), st)
             else if startswith cmd ''visualize'' then
               (map_sum id Streaming (analyze_visualize (heap st ! df)), st)
             else if startswith cmd ''forecast'' then
               (let parts = split cmd
                in case find_target (drop 1 parts) of
                     None \<Rightarrow> (Inr (Message target_prompt), st)
                   | Some target \<Rightarrow>
                       if target = [] then (Inr (Message target_prompt), st)
                       else (map_sum id Streaming (analyze_forecast np_sum (heap st ! df) target), st))
             else (Inr (Message help_message), st))"

section \<open>The form service: \<^verbatim>\<open>app/main.py\<close>\<close>

text \<open>
  \<^verbatim>\<open>analyze_excel\<close> reads the process environment and, of the request, the header
  \<^verbatim>\<open>X-App-Key\<close>. It loads the upload and runs one task on the frame, which is local
  to the call.
\<close>

type_synonym environ = "string \<rightharpoonup> string"

record request =
  x_app_key :: "string option"

definition get_app_key :: "environ \<Rightarrow> string" where
  "get_app_key env = (case env ''APP_KEY'' of None \<Rightarrow> [] | Some k \<Rightarrow> k)"

text \<open>\<^verbatim>\<open>s.rsplit(".", 1)[0]\<close>: what is left of the last dot, all of \<open>s\<close> without one.\<close>

definition rsplit_dot_first :: "string \<Rightarrow> string" where
  "rsplit_dot_first s =
     (if CHR ''.'' \<in> set s then rev (drop 1 (dropWhile (\<lambda>c. c \<noteq> CHR ''.'') (rev s))) else s)"

text \<open>
  The file loading of \<^verbatim>\<open>analyze_excel\<close>. For an unknown extension the \<^verbatim>\<open>try\<close> block
  raises \<^verbatim>\<open>HTTPException(status_code=400, detail="Unsupported file type. ...")\<close>, and
  its own \<^verbatim>\<open>except Exception as exc\<close> catches that and raises a second exception with
  the detail \<^verbatim>\<open>f"Failed to read file: {exc}"\<close>. What \<^verbatim>\<open>str(exc)\<close> is for an
  \<^verbatim>\<open>HTTPException\<close> is up to the web framework (the empty string where the class
  has no \<^verbatim>\<open>__str__\<close> of its own, since the exception is built from keyword
  arguments): it is the parameter \<open>str_http\<close>, given status and detail.
\<close>

type_synonym exc_text = "nat \<Rightarrow> string \<Rightarrow> string"

definition excel_load :: "exc_text \<Rightarrow> reader \<Rightarrow> reader \<Rightarrow> upload_file \<Rightarrow> exn + dataframe" where
  "excel_load str_http read_excel read_csv file =
     (let file_bytes = content file;
          fname = lower (filename file);
          attempt =
            (if endswith fname ''.xlsx'' \<or> endswith fname ''.xls'' then read_excel file_bytes
             else if endswith fname ''.csv'' then read_csv file_bytes
             else Inl (str_http 400 ''Unsupported file type. Please upload an Excel or CSV file.''))
      in case attempt of
           Inl exc \<Rightarrow> Inl (HTTPException 400 (''Failed to read file: '' @ exc))
         | Inr df \<Rightarrow> Inr df)"

text \<open>The branch \<^verbatim>\<open>task == "clean"\<close>; the frame \<open>df\<close> is the only one in the store.\<close>

definition excel_clean :: "upload_file \<Rightarrow> dataframe \<Rightarrow> exn + reply" where
  "excel_clean file df =
     (let (h1, cleaned_df) = df_copy [df] 0
      in case clean_loop (columns (h1 ! cleaned_df)) h1 cleaned_df of
           Inl e \<Rightarrow> Inl e
         | Inr h2 \<Rightarrow>
             Inr (Streaming
               \<lparr> body = Xlsx (h2 ! cleaned_df),
                 media_type = xlsx_media_type,
                 headers = [(''x-summary'', ''Cleaned '' @ filename file)] \<rparr>))"

text \<open>The branch \<^verbatim>\<open>task == "visualize"\<close>.\<close>

definition excel_visualize :: "upload_file \<Rightarrow> dataframe \<Rightarrow> exn + reply" where
  "excel_visualize file df =
     (let numeric_cols = columns (select_dtypes_number df)
      in if length numeric_cols = 0
         then Inl (HTTPException 400 ''No numeric columns available for visualization.'')
         else
           let numeric_cols = take 3 numeric_cols
           in case hist_loop df numeric_cols [] of
                Inl e \<Rightarrow> Inl e
              | Inr zip_file \<Rightarrow>
                  Inr (Streaming
                    \<lparr> body = ZipFile zip_file,
                      media_type = ''application/zip'',
                      headers = [(''Content-Disposition'',
                        ''attachment; filename='' @ [CHR 0x22]
                          @ rsplit_dot_first (filename file) @ ''_charts.zip'' @ [CHR 0x22])] \<rparr>))"

text \<open>The branch \<^verbatim>\<open>task == "forecast"\<close>.\<close>

definition excel_forecast :: "summation \<Rightarrow> dataframe \<Rightarrow> string option \<Rightarrow> exn + reply" where
  "excel_forecast np_sum df target =
     (case target of
        None \<Rightarrow>
          Inl (HTTPException 400
            (''Please specify a target column for forecasting via the ''
               @ quoted ''target'' @ '' form field.''))
      | Some target \<Rightarrow>
          (case map_of df target of
             None \<Rightarrow>
               Inl (HTTPException 400
                 (''Target column '' @ quoted target @ '' not found in the dataset.''))
           | Some s \<Rightarrow>
               if \<not> is_numeric_dtype (dtype_of s)
               then Inl (HTTPException 400
                      (''Target column '' @ quoted target @ '' must be numeric for forecasting.''))
               else
                 let mean_value = mean np_sum s;
                     forecast_df = [(target, Float64 [mean_value])]
                 in Inr (Streaming
                      \<lparr> body = Xlsx forecast_df,
                        media_type = xlsx_media_type,
                        headers = [(''x-summary'',
                          ''Forecasted mean for column '' @ quoted target)] \<rparr>)))"

definition analyze_excel ::
  "environ \<Rightarrow> exc_text \<Rightarrow> summation \<Rightarrow> reader \<Rightarrow> reader \<Rightarrow> request \<Rightarrow> string
     \<Rightarrow> upload_file option \<Rightarrow> string option \<Rightarrow> exn + reply" where
  "analyze_excel env str_http np_sum read_excel read_csv request task file target =
     (case file of
        None \<Rightarrow> Inl (HTTPException 400 ''No file provided'')
      | Some file \<Rightarrow>
          if env ''REQUIRE_APP_KEY'' = Some ''1'' \<and>
             (case x_app_key request of
                None \<Rightarrow> True
              | Some header_key \<Rightarrow> header_key = [] \<or> header_key \<noteq> get_app_key env)
          then Inl (HTTPException 401 ''Unauthorized'')
          else
            (case excel_load str_http read_excel read_csv file of
               Inl e \<Rightarrow> Inl e
             | Inr df \<Rightarrow>
                 (let task = strip (lower task)
                  in if task = ''summary'' then Inr (Summary (analyze_summary df))
                     else if task = ''clean'' then excel_clean file df
                     else if task = ''describe'' then analyze_describe df
                     else if task = ''visualize'' then excel_visualize file df
                     else if task = ''forecast'' then excel_forecast np_sum df target
                     else Inl (HTTPException 400
                            (''Unknown task '' @ quoted task
                               @ ''. Supported tasks are summary, clean, describe, visualize, forecast.'')))))"

section \<open>Notions used in the statements\<close>

text \<open>What a loader returns when it decodes the upload with the reader \<open>rd\<close>: the
  frame, or the reader's exception as a client error.\<close>

definition decoded :: "reader \<Rightarrow> upload_file \<Rightarrow> exn + dataframe" where
  "decoded rd upload =
     (case rd (content upload) of
        Inl exc \<Rightarrow> Inl (HTTPException 400 (''Failed to read file: '' @ exc))
      | Inr df \<Rightarrow> Inr df)"

text \<open>The cells of a column that are present, the cells of a column after every
  missing one has been replaced by \<open>v\<close>, and whether a column has a missing cell.\<close>

definition present :: "series \<Rightarrow> cell list" where
  "present s = filter (\<lambda>c. \<not> isna c) (values_of s)"

definition fill_with :: "cell \<Rightarrow> series \<Rightarrow> cell list" where
  "fill_with v s = map (\<lambda>c. if isna c then v else c) (values_of s)"

definition has_na :: "series \<Rightarrow> bool" where
  "has_na s = list_ex isna (values_of s)"

text \<open>\<open>v\<close> is one of the values of \<open>vs\<close> and none occurs more often.\<close>

definition most_frequent :: "cell \<Rightarrow> cell list \<Rightarrow> bool" where
  "most_frequent v vs \<longleftrightarrow> v \<in> set vs \<and> list_all (\<lambda>w. count_list vs w \<le> count_list vs v) vs"

text \<open>
  What Clean is to make of a column \<open>s\<close>. A column of a numeric kind whose median is
  a number has its missing cells replaced by that median and has no missing cell
  afterwards; when the median is NaN, as it is when no value is present, the
  column stays as it is. Any other column has its missing cells replaced by a most
  frequent value among those present, or by the empty string when none is
  present, and has no missing cell afterwards.
\<close>

definition cleaned_column :: "series \<Rightarrow> series \<Rightarrow> bool" where
  "cleaned_column s s' \<longleftrightarrow>
     (if kind (dtype_of s) \<in> set ''biufc'' then
        (present s = [] \<longrightarrow> median s = None) \<and>
        (case median s of
           None \<Rightarrow> s' = s
         | Some m \<Rightarrow> present s \<noteq> [] \<and> values_of s' = fill_with (Flt m) s \<and> \<not> has_na s')
      else if present s = [] then values_of s' = fill_with (Str []) s \<and> \<not> has_na s'
      else \<exists>v. most_frequent v (present s) \<and> values_of s' = fill_with v s \<and> \<not> has_na s')"

text \<open>One round of the loop of Clean, on the column itself.\<close>

definition clean_series :: "series \<Rightarrow> series" where
  "clean_series s = fillna s (fill_value s)"

text \<open>The keyword of a chat message: its first word, trimmed and in lower case; and
  the keywords the dispatcher knows.\<close>

definition task_keywords :: "string list" where
  "task_keywords = [''summary'', ''clean'', ''describe'', ''visualize'', ''forecast'']"

definition keyword :: "string \<Rightarrow> string" where
  "keyword command = (case split (lower (strip command)) of [] \<Rightarrow> [] | w # _ \<Rightarrow> w)"

section \<open>Forecast\<close>

lemma map_of_columns: "map_of df target = None \<longleftrightarrow> target \<notin> set (columns df)"
  by (simp add: columns_def map_of_eq_None_iff)

lemma length_dropna: "length (dropna xs) = length (filter (\<lambda>x. x \<noteq> None) xs)"
  by (induction xs rule: dropna.induct) simp_all

lemma notna_count_dropna: "notna_count s = length (dropna (f8_values s))"
  by (simp add: notna_count_def length_dropna)

lemma mean_no_value: "dropna (f8_values s) = [] \<Longrightarrow> mean np_sum s = None"
  by (simp add: mean_def notna_count_dropna)






text \<open>
  Claim C6. Forecast fails exactly when the target names no column of the frame or
  names a column that is not numeric, and then with status 400 and a detail that
  names the column and says which of the two it is; for a numeric column that
  exists it returns a response. The form service refuses a request that names no
  target at all in the same way.
\<close>

theorem forecast_error_iff:
  "((\<exists>e. analyze_forecast np_sum df target = Inl e) \<longleftrightarrow>
      (target \<notin> set (columns df) \<or>
       (\<exists>s. map_of df target = Some s \<and> \<not> is_numeric_dtype (dtype_of s)))) \<and>
   (target \<notin> set (columns df) \<longrightarrow>
      analyze_forecast np_sum df target =
        Inl (HTTPException 400 (''Column '' @ quoted target @ '' not found in dataset.''))) \<and>
   (\<forall>s. map_of df target = Some s \<and> \<not> is_numeric_dtype (dtype_of s) \<longrightarrow>
      analyze_forecast np_sum df target =
        Inl (HTTPException 400 (''Column '' @ quoted target @ '' must be numeric for forecasting.''))) \<and>
   (\<forall>s. map_of df target = Some s \<and> is_numeric_dtype (dtype_of s) \<longrightarrow>
      (\<exists>r. analyze_forecast np_sum df target = Inr r)) \<and>
   ((\<exists>e. excel_forecast np_sum df (Some target) = Inl e) \<longleftrightarrow>
      (target \<notin> set (columns df) \<or>
       (\<exists>s. map_of df target = Some s \<and> \<not> is_numeric_dtype (dtype_of s)))) \<and>
   (target \<notin> set (columns df) \<longrightarrow>
      excel_forecast np_sum df (Some target) =
        Inl (HTTPException 400 (''Target column '' @ quoted target @ '' not found in the dataset.''))) \<and>
   (\<forall>s. map_of df target = Some s \<and> \<not> is_numeric_dtype (dtype_of s) \<longrightarrow>
      excel_forecast np_sum df (Some target) =
        Inl (HTTPException 400
          (''Target column '' @ quoted target @ '' must be numeric for forecasting.''))) \<and>
   (\<forall>s. map_of df target = Some s \<and> is_numeric_dtype (dtype_of s) \<longrightarrow>
      (\<exists>r. excel_forecast np_sum df (Some target) = Inr r)) \<and>
   (\<exists>detail. excel_forecast np_sum df None = Inl (HTTPException 400 detail))"
  by (cases "map_of df target")
     (auto simp add: analyze_forecast_def excel_forecast_def map_of_columns [symmetric] Let_def)

theorem forecast_error_iff_witness:
  "analyze_forecast seq_sum [(''Name'', Object [Str ''Ann'', Str ''Bob'']), (''Age'', Int64 [31, 45])] ''Name''
     = Inl (HTTPException 400 (''Column '' @ quoted ''Name'' @ '' must be numeric for forecasting.'')) \<and>
   analyze_forecast seq_sum [(''Name'', Object [Str ''Ann'', Str ''Bob'']), (''Age'', Int64 [31, 45])] ''Height''
     = Inl (HTTPException 400 (''Column '' @ quoted ''Height'' @ '' not found in dataset.'')) \<and>
   (\<exists>r. analyze_forecast seq_sum [(''Name'', Object [Str ''Ann'', Str ''Bob'']), (''Age'', Int64 [31, 45])] ''Age'' = Inr r)"
  using forecast_error_iff [of seq_sum "[(''Name'', Object [Str ''Ann'', Str ''Bob'']), (''Age'', Int64 [31, 45])]" "''Name''"]
        forecast_error_iff [of seq_sum "[(''Name'', Object [Str ''Ann'', Str ''Bob'']), (''Age'', Int64 [31, 45])]" "''Height''"]
        forecast_error_iff [of seq_sum "[(''Name'', Object [Str ''Ann'', Str ''Bob'']), (''Age'', Int64 [31, 45])]" "''Age''"]
  by (simp add: columns_def)

lemma dropna_all_na: "list_all isna (values_of s) \<Longrightarrow> dropna (f8_values s) = []"
proof -
  have "list_all isna cs \<Longrightarrow> dropna (map to_f8 cs) = []" for cs
    by (induction cs) (auto elim: isna.elims)
  then show "list_all isna (values_of s) \<Longrightarrow> dropna (f8_values s) = []"
    by (simp add: f8_values_def)
qed

text \<open>
  Claim C10. For a numeric target column in which every cell is missing, Forecast
  does not fail: both services answer with the frame of one column and one row
  whose cell is NaN, the mean of no values.
\<close>

theorem forecast_all_missing:
  assumes "map_of df target = Some s" and "is_numeric_dtype (dtype_of s)"
      and "list_all isna (values_of s)"
  shows "analyze_forecast np_sum df target =
           Inr \<lparr> body = Xlsx [(target, Float64 [None])],
                  media_type = xlsx_media_type,
                  headers = [(''Content-Disposition'',
                              ''attachment; filename=forecast_'' @ target @ ''.xlsx'')] \<rparr> \<and>
         excel_forecast np_sum df (Some target) =
           Inr (Streaming \<lparr> body = Xlsx [(target, Float64 [None])],
                  media_type = xlsx_media_type,
                  headers = [(''x-summary'', ''Forecasted mean for column '' @ quoted target)] \<rparr>)"
  using assms
  by (simp add: analyze_forecast_def excel_forecast_def mean_no_value dropna_all_na)

theorem forecast_all_missing_witness:
  "body (projr (analyze_forecast seq_sum [(''Sales'', Float64 [None, None, None])] ''Sales''))
     = Xlsx [(''Sales'', Float64 [None])] \<and>
   values_of (Float64 [None]) = [NA]"
  using forecast_all_missing [of "[(''Sales'', Float64 [None, None, None])]" "''Sales''" "Float64 [None, None, None]" seq_sum]
  by (simp add: float_cell_def)

section \<open>Visualize\<close>

lemma hist_loop_names:
  "set cols \<subseteq> set (columns df) \<Longrightarrow>
   \<exists>ys. hist_loop df cols zf = Inr (zf @ ys) \<and> map fst ys = map (\<lambda>col. col @ ''.png'') cols"
proof (induction cols arbitrary: zf)
  case Nil
  then show ?case by simp
next
  case (Cons col cols)
  from Cons.prems have "col \<in> fst ` set df" by (simp add: columns_def)
  then obtain s where s: "map_of df col = Some s"
    by (metis map_of_eq_None_iff not_Some_eq)
  from Cons.prems have "set cols \<subseteq> set (columns df)" by simp
  from Cons.IH [OF this, of "zf @ [(col @ ''.png'', hist col s)]"]
  obtain ys where ys: "hist_loop df cols (zf @ [(col @ ''.png'', hist col s)])
                         = Inr ((zf @ [(col @ ''.png'', hist col s)]) @ ys)"
                      "map fst ys = map (\<lambda>col. col @ ''.png'') cols"
    by blast
  show ?case
    by (rule exI [of _ "(col @ ''.png'', hist col s) # ys"]) (simp add: s ys)
qed

lemma select_dtypes_number_columns:
  "set (take n (columns (select_dtypes_number df))) \<subseteq> set (columns df)"
proof -
  have "set (take n (columns (select_dtypes_number df))) \<subseteq> set (columns (select_dtypes_number df))"
    by (rule set_take_subset)
  also have "\<dots> \<subseteq> set (columns df)"
    by (auto simp add: columns_def select_dtypes_number_def)
  finally show ?thesis .
qed

text \<open>
  Claim C5. On a frame with at least four number columns both services answer with
  a ZIP archive of exactly three entries: \<^verbatim>\<open><column>.png\<close> for the first three number
  columns of the frame, written in the frame's column order.
\<close>

theorem visualize_first_three:
  assumes "4 \<le> length (select_dtypes_number df)"
  defines "names \<equiv> map (\<lambda>col. col @ ''.png'') (take 3 (columns (select_dtypes_number df)))"
  shows "(\<exists>r zf. analyze_visualize df = Inr r \<and> body r = ZipFile zf \<and>
                  length zf = 3 \<and> map fst zf = names) \<and>
         (\<exists>r zf. excel_visualize upload df = Inr (Streaming r) \<and> body r = ZipFile zf \<and>
                  length zf = 3 \<and> map fst zf = names)"
proof -
  let ?cols = "take 3 (columns (select_dtypes_number df))"
  have sub: "set ?cols \<subseteq> set (columns df)" by (rule select_dtypes_number_columns)
  from hist_loop_names [OF sub, of "[]"]
  obtain zf where zf: "hist_loop df ?cols [] = Inr zf" "map fst zf = names"
    unfolding names_def by auto
  from assms(1) have len: "length (columns (select_dtypes_number df)) \<noteq> 0"
    by (auto simp add: columns_def)
  have "length zf = length (map fst zf)" by simp
  also have "\<dots> = 3" using assms(1) by (simp add: zf(2) names_def columns_def)
  finally have l3: "length zf = 3" .
  show ?thesis
    using zf len l3 by (simp add: analyze_visualize_def excel_visualize_def Let_def)
qed

theorem visualize_first_three_witness:
  "(\<exists>r zf. analyze_visualize
      [(''id'', Int64 [1, 2]), (''name'', Object [Str ''a'', NA]), (''x'', Float64 [Some (Finite 1), None]),
       (''ok'', Bool [True, False]), (''y'', Float64 [Some (Finite 2), Some (Finite 3)]), (''z'', UInt64 [7, 8])] = Inr r \<and>
     body r = ZipFile zf \<and> length zf = 3 \<and> map fst zf = [''id.png'', ''x.png'', ''y.png'']) \<and>
   (\<exists>r zf. excel_visualize \<lparr>filename = ''t.csv'', content = []\<rparr>
      [(''id'', Int64 [1, 2]), (''name'', Object [Str ''a'', NA]), (''x'', Float64 [Some (Finite 1), None]),
       (''ok'', Bool [True, False]), (''y'', Float64 [Some (Finite 2), Some (Finite 3)]), (''z'', UInt64 [7, 8])]
        = Inr (Streaming r) \<and>
     body r = ZipFile zf \<and> length zf = 3 \<and> map fst zf = [''id.png'', ''x.png'', ''y.png''])"
  using visualize_first_three [where upload = "\<lparr>filename = ''t.csv'', content = []\<rparr>" and df =
      "[(''id'', Int64 [1, 2]), (''name'', Object [Str ''a'', NA]), (''x'', Float64 [Some (Finite 1), None]),
       (''ok'', Bool [True, False]), (''y'', Float64 [Some (Finite 2), Some (Finite 3)]), (''z'', UInt64 [7, 8])]"]
  by (simp add: select_dtypes_number_def columns_def)

section \<open>Loading\<close>

lemma endswith_last:
  assumes "endswith f p" and "p \<noteq> []"
  shows "last f = last p"
proof -
  from assms(1) have "drop (length f - length p) f = p" by (simp add: endswith_def)
  then have "f = take (length f - length p) f @ p" by (metis append_take_drop_id)
  then have "last f = last (take (length f - length p) f @ p)" by simp
  with assms(2) show ?thesis by simp
qed

lemma csv_not_excel:
  "endswith f ''.csv'' \<Longrightarrow> \<not> endswith f ''.xlsx'' \<and> \<not> endswith f ''.xls''"
  using endswith_last [of f "''.csv''"] endswith_last [of f "''.xlsx''"]
        endswith_last [of f "''.xls''"]
  by auto

text \<open>
  Both loaders choose the decoder by the extension of the file name in lower case,
  a reader that fails on the content is caught, and whatever goes wrong the loader
  fails with status 400. For a name with another extension the chat service names
  the unsupported format in the detail; the detail of the form service is
  \<^verbatim>\<open>Failed to read file:\<close> and the text of the exception it caught.
\<close>

lemma load_by_extension:
  fixes read_excel read_csv :: reader and upload :: upload_file
  defines "fname \<equiv> lower (filename upload)"
  shows
   "(endswith fname ''.xlsx'' \<or> endswith fname ''.xls'' \<longrightarrow>
       load_dataframe read_excel read_csv upload = decoded read_excel upload \<and>
       excel_load str_http read_excel read_csv upload = decoded read_excel upload) \<and>
    (endswith fname ''.csv'' \<longrightarrow>
       load_dataframe read_excel read_csv upload = decoded read_csv upload \<and>
       excel_load str_http read_excel read_csv upload = decoded read_csv upload) \<and>
    (\<not> endswith fname ''.xlsx'' \<and> \<not> endswith fname ''.xls'' \<and> \<not> endswith fname ''.csv'' \<longrightarrow>
       load_dataframe read_excel read_csv upload =
         Inl (HTTPException 400
           (''Failed to read file: Unsupported file format. Please upload .xls/.xlsx or .csv'')) \<and>
       excel_load str_http read_excel read_csv upload =
         Inl (HTTPException 400
           (''Failed to read file: ''
              @ str_http 400 ''Unsupported file type. Please upload an Excel or CSV file.''))) \<and>
    (\<forall>e. load_dataframe read_excel read_csv upload = Inl e \<or>
         excel_load str_http read_excel read_csv upload = Inl e \<longrightarrow>
         (\<exists>detail. e = HTTPException 400 detail))"
  using csv_not_excel [of fname]
  unfolding fname_def
  by (auto simp add: load_dataframe_def excel_load_def decoded_def Let_def split: sum.splits)

lemma lower_notes_txt: "lower ''notes.txt'' = ''notes.txt''"
  by code_simp

text \<open>
  Claim C7. For the upload \<^verbatim>\<open>notes.txt\<close> the form service builds the exception
  \<^verbatim>\<open>HTTPException(400, "Unsupported file type. Please upload an Excel or CSV file.")\<close>
  inside its own \<^verbatim>\<open>try\<close> block, catches it, and answers with the detail
  \<^verbatim>\<open>Failed to read file:\<close> followed by \<^verbatim>\<open>str\<close> of that exception: where that text is
  empty nothing of the unsupported format reaches the client. The chat service,
  which raises \<^verbatim>\<open>ValueError\<close> there, answers with the unsupported format in the
  detail.
\<close>

theorem form_loader_drops_unsupported:
  "excel_load str_http read_excel read_csv \<lparr>filename = ''notes.txt'', content = bytes\<rparr>
     = Inl (HTTPException 400
         (''Failed to read file: ''
            @ str_http 400 ''Unsupported file type. Please upload an Excel or CSV file.'')) \<and>
   excel_load (\<lambda>status detail. []) read_excel read_csv \<lparr>filename = ''notes.txt'', content = bytes\<rparr>
     = Inl (HTTPException 400 ''Failed to read file: '') \<and>
   load_dataframe read_excel read_csv \<lparr>filename = ''notes.txt'', content = bytes\<rparr>
     = Inl (HTTPException 400
         ''Failed to read file: Unsupported file format. Please upload .xls/.xlsx or .csv'')"
proof -
  have no_ext: "\<not> endswith ''notes.txt'' ''.xlsx'' \<and> \<not> endswith ''notes.txt'' ''.xls'' \<and>
             \<not> endswith ''notes.txt'' ''.csv''"
    by (simp add: endswith_def)
  then show ?thesis
    by (simp add: excel_load_def load_dataframe_def lower_notes_txt)
qed

section \<open>Chat commands\<close>

lemma split_from_word:
  "\<forall>c \<in> set k. \<not> isspace c \<Longrightarrow> split_from tok (k @ rest) = split_from (rev k @ tok) rest"
  by (induction k arbitrary: tok) simp_all

lemma split_from_begun:
  "tok \<noteq> [] \<Longrightarrow> \<exists>sfx ws. split_from tok rest = (rev tok @ sfx) # ws"
proof (induction rest arbitrary: tok)
  case Nil
  then show ?case by simp
next
  case (Cons c cs)
  show ?case
  proof (cases "isspace c")
    case True
    with Cons.prems show ?thesis by simp
  next
    case False
    from Cons.IH [of "c # tok"] obtain sfx ws
      where "split_from (c # tok) cs = (rev (c # tok) @ sfx) # ws" by blast
    with False show ?thesis by simp
  qed
qed

lemma startswith_keyword:
  assumes "startswith cmd k" and "k \<noteq> []" and "\<forall>c \<in> set k. \<not> isspace c"
  shows "\<exists>sfx ws. split cmd = (k @ sfx) # ws"
proof -
  from assms(1) have "cmd = k @ drop (length k) cmd"
    by (metis append_take_drop_id startswith_def)
  then have "split cmd = split_from (rev k) (drop (length k) cmd)"
    using split_from_word [OF assms(3), of "[]" "drop (length k) cmd"] by (simp add: split_def)
  with split_from_begun [of "rev k" "drop (length k) cmd"] assms(2)
  show ?thesis by simp
qed

lemma task_keywords_words: "k \<in> set task_keywords \<Longrightarrow> k \<noteq> [] \<and> (\<forall>c \<in> set k. \<not> isspace c)"
  by (auto simp add: task_keywords_def isspace_def)

lemma startswith_append: "startswith (k @ sfx) k"
  by (simp add: startswith_def)

lemma keyword_matches:
  assumes "k \<in> set task_keywords" and "startswith (lower (strip command)) k"
  shows "startswith (keyword command) k"
proof -
  from task_keywords_words [OF assms(1)] startswith_keyword [OF assms(2)]
  obtain sfx ws where "split (lower (strip command)) = (k @ sfx) # ws" by blast
  then show ?thesis by (simp add: keyword_def startswith_append)
qed

text \<open>
  Claim C8. With a table loaded, a chat message whose keyword starts with none of
  \<^verbatim>\<open>summary\<close>, \<^verbatim>\<open>clean\<close>, \<^verbatim>\<open>describe\<close>, \<^verbatim>\<open>visualize\<close>, \<^verbatim>\<open>forecast\<close> is answered
  with the help message that lists the commands; nothing is raised and the state
  is as before.
\<close>

theorem unknown_command_help:
  assumes "dataframe_global st = Some df"
      and "\<forall>k \<in> set task_keywords. \<not> startswith (keyword command) k"
  shows "process_command np_sum st command = (Inr (Message help_message), st)"
proof -
  from assms(2) keyword_matches
  have "\<forall>k \<in> set task_keywords. \<not> startswith (lower (strip command)) k" by blast
  then show ?thesis
    using assms(1) by (simp add: process_command_def task_keywords_def Let_def)
qed

lemma lower_plot: "lower ''Plot sales'' = ''plot sales''"
  by code_simp

theorem unknown_command_help_witness:
  "process_command seq_sum \<lparr>heap = [[(''sales'', Int64 [3, 4])]], dataframe_global = Some 0\<rparr> '' Plot sales''
     = (Inr (Message help_message),
        \<lparr>heap = [[(''sales'', Int64 [3, 4])]], dataframe_global = Some 0\<rparr>)"
proof -
  have "keyword '' Plot sales'' = ''plot''"
    by (simp add: keyword_def strip_def isspace_def lower_plot split_def)
  then have "\<forall>k \<in> set task_keywords. \<not> startswith (keyword '' Plot sales'') k"
    by (simp add: task_keywords_def startswith_def)
  from unknown_command_help [OF _ this, of "\<lparr>heap = [[(''sales'', Int64 [3, 4])]], dataframe_global = Some 0\<rparr>" 0]
  show ?thesis by simp
qed

lemma lower_forecast_revenue: "lower ''forecast target=Revenue'' = ''forecast target=revenue''"
  by code_simp

lemma strip_forecast_revenue: "strip ''forecast target=Revenue'' = ''forecast target=Revenue''"
  by (simp add: strip_def isspace_def)

lemma split_forecast_revenue:
  "split ''forecast target=revenue'' = [''forecast'', ''target=revenue'']"
  by (simp add: split_def isspace_def)

lemma find_target_prefix:
  "find_target parts = Some target \<Longrightarrow> \<exists>part \<in> set parts. part = ''target='' @ target"
proof (induction parts)
  case Nil
  then show ?case by simp
next
  case (Cons p ps)
  show ?case
  proof (cases "startswith p ''target=''")
    case True
    then have "p = ''target='' @ drop (length ''target='') p"
      unfolding startswith_def by (metis append_take_drop_id)
    with True Cons.prems show ?thesis by auto
  next
    case False
    with Cons show ?thesis by auto
  qed
qed

text \<open>Whatever the message, the target that the dispatcher hands to the handler has
  no upper-case letter: it is cut out of the message after lower-casing.\<close>

lemma lower_letters_not_upper: "list_all (\<lambda>d. d \<notin> set upper_letters) lower_letters"
  by code_simp

lemma lower_char_idem: "lower_char (lower_char c) = lower_char c"
proof (cases "map_of (zip upper_letters lower_letters) c")
  case None
  then show ?thesis by (simp add: lower_char_def)
next
  case (Some d)
  then have "d \<in> set lower_letters"
    by (meson map_of_SomeD set_zip_rightD)
  with lower_letters_not_upper have "d \<notin> set upper_letters"
    by (simp add: list_all_iff)
  moreover have "length upper_letters = length lower_letters"
    by (simp add: upper_letters_def lower_letters_def)
  ultimately have "map_of (zip upper_letters lower_letters) d = None"
    by (metis map_of_eq_None_iff map_fst_zip set_map)
  with Some show ?thesis by (simp add: lower_char_def)
qed

lemma lower_idem: "lower (lower s) = lower s"
  by (simp add: lower_def lower_char_idem)

lemma split_from_chars:
  "w \<in> set (split_from tok s) \<Longrightarrow> set w \<subseteq> set tok \<union> set s"
proof (induction s arbitrary: tok)
  case Nil
  then show ?case by (auto split: if_splits)
next
  case (Cons c cs)
  then show ?case by (fastforce split: if_splits)
qed

lemma find_target_chars:
  "find_target parts = Some target \<Longrightarrow> \<exists>part \<in> set parts. set target \<subseteq> set part"
proof -
  assume "find_target parts = Some target"
  from find_target_prefix [OF this] obtain part
    where "part \<in> set parts" and "part = ''target='' @ target" by blast
  then have "set target \<subseteq> set part" by auto
  with \<open>part \<in> set parts\<close> show ?thesis by blast
qed

lemma chat_target_lower:
  assumes "find_target (drop 1 (split (lower (strip command)))) = Some target"
  shows "lower target = target"
proof -
  from find_target_chars [OF assms] obtain part
    where "part \<in> set (drop 1 (split (lower (strip command))))" and sub: "set target \<subseteq> set part"
    by blast
  then have "part \<in> set (split_from [] (lower (strip command)))"
    by (auto simp add: split_def dest: in_set_dropD)
  from split_from_chars [OF this] sub have "set target \<subseteq> set (lower (strip command))" by auto
  then have "\<forall>c \<in> set target. lower_char c = c"
    by (auto simp add: lower_def lower_char_idem)
  then show ?thesis by (simp add: lower_def map_idI)
qed

text \<open>
  Claim C3. The dispatcher lower-cases the whole message before it looks for
  \<^verbatim>\<open>target=\<close>. With a column \<^verbatim>\<open>Revenue\<close> loaded, \<^verbatim>\<open>forecast target=Revenue\<close> therefore
  asks the handler for the column \<^verbatim>\<open>revenue\<close>, which fails with status 400, although
  the handler forecasts \<^verbatim>\<open>Revenue\<close> when asked for it. \<^verbatim>\<open>forecast\<close> alone is answered
  with the prompt and the handler is not called.
\<close>

theorem chat_target_lowercased:
  "process_command np_sum
     \<lparr>heap = [[(''Revenue'', Float64 [Some (Finite 10), Some (Finite 20)])]], dataframe_global = Some 0\<rparr>
     ''forecast target=Revenue''
   = (Inl (HTTPException 400 (''Column '' @ quoted ''revenue'' @ '' not found in dataset.'')),
      \<lparr>heap = [[(''Revenue'', Float64 [Some (Finite 10), Some (Finite 20)])]], dataframe_global = Some 0\<rparr>) \<and>
   (\<exists>r. analyze_forecast np_sum [(''Revenue'', Float64 [Some (Finite 10), Some (Finite 20)])] ''Revenue'' = Inr r) \<and>
   process_command np_sum
     \<lparr>heap = [[(''Revenue'', Float64 [Some (Finite 10), Some (Finite 20)])]], dataframe_global = Some 0\<rparr>
     ''forecast''
   = (Inr (Message target_prompt),
      \<lparr>heap = [[(''Revenue'', Float64 [Some (Finite 10), Some (Finite 20)])]], dataframe_global = Some 0\<rparr>)"
proof -
  have 1: "lower (strip ''forecast'') = ''forecast''"
    by code_simp
  have 2: "split ''forecast'' = [''forecast'']"
    by (simp add: split_def isspace_def)
  show ?thesis
    by (simp add: process_command_def strip_forecast_revenue lower_forecast_revenue 1 2
          split_forecast_revenue startswith_def analyze_forecast_def)
qed

section \<open>Clean\<close>

subsection \<open>fillna\<close>

lemma fillna_no_na: "\<not> has_na s \<Longrightarrow> fillna s v = s"
  by (simp add: fillna_def has_na_def)

lemma fillna_NA: "isna v \<Longrightarrow> fillna s v = s"
  by (simp add: fillna_def)

lemma isna_float_cell: "isna (float_cell x) \<longleftrightarrow> x = None"
  by (cases x) (simp_all add: float_cell_def)

lemma isna_time_cell: "isna (time_cell x) \<longleftrightarrow> x = None"
  by (cases x) (simp_all add: time_cell_def)

lemma values_fillna:
  assumes "\<not> isna v"
  shows "values_of (fillna s v) = fill_with v s"
proof (cases "list_ex isna (values_of s)")
  case False
  then have "fill_with v s = values_of s"
    by (simp add: fill_with_def list_ex_iff map_idI)
  with False show ?thesis by (simp add: fillna_def)
next
  case True
  from True assms show ?thesis
    by (cases s; cases v)
       (auto simp add: fillna_def fill_with_def float_cell_def time_cell_def split: option.splits)
qed

lemma fill_with_no_na: "\<not> isna v \<Longrightarrow> \<not> list_ex isna (fill_with v s)"
  by (auto simp add: fill_with_def list_ex_iff)


subsection \<open>median and mode\<close>

lemma nanmedian_Nil: "nanmedian [] = None"
  by (simp add: nanmedian_def sort_f8_def)

lemma dropna_all_isna: "\<forall>c \<in> set cs. isna c \<Longrightarrow> dropna (map to_f8 cs) = []"
proof (induction cs)
  case Nil
  then show ?case by simp
next
  case (Cons c cs)
  then have "c = NA" by (cases c) simp_all
  with Cons show ?case by simp
qed

lemma present_empty: "present s = [] \<longleftrightarrow> (\<forall>c \<in> set (values_of s). isna c)"
  by (simp add: present_def filter_empty_conv)

text \<open>The median of a column with no value present is NaN.\<close>

lemma median_no_present: "present s = [] \<Longrightarrow> median s = None"
  by (simp add: median_def f8_values_def present_empty dropna_all_isna nanmedian_Nil)

lemma foldr_max_ge:
  "w \<in> set xs \<Longrightarrow> count_list vs w \<le> foldr (\<lambda>v m. max (count_list vs v) m) xs 0"
  by (induction xs) (auto simp add: max_def)

lemma foldr_max_attained:
  "xs \<noteq> [] \<Longrightarrow> \<exists>v \<in> set xs. count_list vs v = foldr (\<lambda>v m. max (count_list vs v) m) xs 0"
proof (induction xs)
  case Nil
  then show ?case by simp
next
  case (Cons x xs)
  show ?case
  proof (cases "xs = []")
    case True
    then show ?thesis by simp
  next
    case False
    with Cons.IH obtain v where "v \<in> set xs"
      and "count_list vs v = foldr (\<lambda>v m. max (count_list vs v) m) xs 0" by blast
    then show ?thesis by (auto simp add: max_def)
  qed
qed

lemma set_insort_cell: "set (insort_cell x ys) = insert x (set ys)"
  by (induction ys) auto

lemma set_sort_cells: "set (sort_cells xs) = set xs"
  unfolding sort_cells_def by (induction xs) (simp_all add: set_insort_cell)

lemma set_safe_sort: "set (safe_sort xs) = set xs"
  by (cases xs) (simp_all add: safe_sort_def set_sort_cells)

lemma set_mode:
  "set (mode s) = {v \<in> set (present s). count_list (present s) v = max_count (present s)}"
  by (auto simp add: mode_def Let_def set_safe_sort present_def)

lemma mode_empty: "present s = [] \<Longrightarrow> mode s = []"
  using set_mode [of s] by simp

lemma mode_most_frequent:
  assumes "present s \<noteq> []"
  shows "\<exists>m ms. mode s = m # ms \<and> most_frequent m (present s)"
proof -
  from foldr_max_attained [OF assms, of "present s"] have "set (mode s) \<noteq> {}"
    by (auto simp add: set_mode max_count_def)
  then obtain m ms where mode: "mode s = m # ms" by (cases "mode s") auto
  then have "m \<in> set (mode s)" by simp
  then have "m \<in> set (present s)" and "count_list (present s) m = max_count (present s)"
    by (simp_all add: set_mode)
  then have "most_frequent m (present s)"
    by (simp add: most_frequent_def list_all_iff max_count_def foldr_max_ge)
  with mode show ?thesis by blast
qed

subsection \<open>The value a column is filled with\<close>

lemma fill_value_numeric:
  assumes "kind (dtype_of s) \<in> set ''biufc''"
  shows "fill_value s = float_cell (median s)"
  using assms by (simp add: fill_value_def)

lemma fill_value_other:
  assumes "kind (dtype_of s) \<notin> set ''biufc''"
  shows "if present s = [] then fill_value s = Str []
         else most_frequent (fill_value s) (present s)"
proof (cases "present s = []")
  case True
  with assms show ?thesis by (simp add: fill_value_def mode_empty)
next
  case False
  from mode_most_frequent [OF False] assms False show ?thesis
    by (auto simp add: fill_value_def)
qed

lemma most_frequent_present: "most_frequent v (present s) \<Longrightarrow> \<not> isna v"
  by (simp add: most_frequent_def present_def)


subsection \<open>The loop over the columns\<close>

lemma update_distinct_map:
  "distinct (map fst d) \<Longrightarrow> map_of d k = Some s \<Longrightarrow>
     AList.update k (f s) d = map (\<lambda>(n, t). if n = k then (n, f t) else (n, t)) d"
proof (induction d)
  case Nil
  then show ?case by simp
next
  case (Cons p d)
  obtain n t where p: "p = (n, t)" by (cases p)
  show ?case
  proof (cases "n = k")
    case True
    with Cons.prems p have "t = s" and "k \<notin> fst ` set d" by auto
    then have "map (\<lambda>(n, t). if n = k then (n, f t) else (n, t)) d = d"
      by (intro map_idI) (auto simp add: rev_image_eqI)
    with True p \<open>t = s\<close> show ?thesis by simp
  next
    case False
    with Cons p show ?thesis by simp
  qed
qed

lemma clean_loop_map:
  assumes "cleaned < length h" and "distinct (columns (h ! cleaned))"
      and "set cols \<subseteq> set (columns (h ! cleaned))" and "distinct cols"
  shows "clean_loop cols h cleaned =
           Inr (h[cleaned := map (\<lambda>(n, t). if n \<in> set cols then (n, clean_series t) else (n, t))
                               (h ! cleaned)])"
  using assms
proof (induction cols arbitrary: h)
  case Nil
  then show ?case by simp
next
  case (Cons col cols)
  let ?d = "h ! cleaned"
  from Cons.prems(3) have "col \<in> fst ` set ?d" by (simp add: columns_def)
  then obtain s where s: "map_of ?d col = Some s"
    by (metis map_of_eq_None_iff not_Some_eq)
  let ?d' = "map (\<lambda>(n, t). if n = col then (n, clean_series t) else (n, t)) ?d"
  let ?h' = "h[cleaned := ?d']"
  from Cons.prems(2) s have upd: "AList.update col (clean_series s) ?d = ?d'"
    by (simp add: update_distinct_map columns_def)
  have cols': "columns ?d' = columns ?d"
    by (auto simp add: columns_def)
  from Cons.prems(1) have nth: "?h' ! cleaned = ?d'" and len: "cleaned < length ?h'" by simp_all
  have "clean_loop (col # cols) h cleaned = clean_loop cols ?h' cleaned"
    using s upd by (simp add: setitem_def clean_series_def)
  also have "\<dots> = Inr (?h'[cleaned :=
      map (\<lambda>(n, t). if n \<in> set cols then (n, clean_series t) else (n, t)) (?h' ! cleaned)])"
    using Cons.prems by (intro Cons.IH len) (simp_all add: nth cols')
  also have "map (\<lambda>(n, t). if n \<in> set cols then (n, clean_series t) else (n, t)) (?h' ! cleaned)
      = map (\<lambda>(n, t). if n \<in> set (col # cols) then (n, clean_series t) else (n, t)) ?d"
    using Cons.prems(4) by (auto simp add: nth)
  finally show ?case by simp
qed

lemma clean_loop_all:
  assumes "distinct (columns df)"
  shows "clean_loop (columns ((h @ [df]) ! length h)) (h @ [df]) (length h)
           = Inr (h @ [map (\<lambda>(n, t). (n, clean_series t)) df])"
proof -
  have "map (\<lambda>(n, t). if n \<in> set (columns df) then (n, clean_series t) else (n, t)) df
          = map (\<lambda>(n, t). (n, clean_series t)) df"
    by (rule map_cong) (auto simp add: columns_def rev_image_eqI)
  with clean_loop_map [of "length h" "h @ [df]" "columns df"] assms show ?thesis
    by simp
qed


lemma clean_series_as_claimed: "cleaned_column s (clean_series s)"
proof (cases "kind (dtype_of s) \<in> set ''biufc''")
  case True
  show ?thesis
  proof (cases "median s")
    case None
    with True have "clean_series s = s"
      by (simp add: clean_series_def fill_value_numeric float_cell_def fillna_NA)
    with True None show ?thesis by (simp add: cleaned_column_def)
  next
    case (Some m)
    with median_no_present [of s] have "present s \<noteq> []" by auto
    moreover from Some True have "values_of (clean_series s) = fill_with (Flt m) s"
      by (simp add: clean_series_def fill_value_numeric float_cell_def values_fillna)
    ultimately show ?thesis
      using True Some fill_with_no_na [of "Flt m" s]
      by (simp add: cleaned_column_def has_na_def)
  qed
next
  case False
  show ?thesis
  proof (cases "present s = []")
    case True
    with fill_value_other [OF False] have "fill_value s = Str []" by simp
    then have "values_of (clean_series s) = fill_with (Str []) s"
      by (simp add: clean_series_def values_fillna)
    with False True fill_with_no_na [of "Str []" s] show ?thesis
      by (simp add: cleaned_column_def has_na_def)
  next
    case nonempty: False
    with fill_value_other [OF False] have mf: "most_frequent (fill_value s) (present s)" by simp
    then have "\<not> isna (fill_value s)" by (rule most_frequent_present)
    then have "values_of (clean_series s) = fill_with (fill_value s) s"
      and "\<not> has_na (clean_series s)"
      using fill_with_no_na [of "fill_value s" s]
      by (simp_all add: clean_series_def values_fillna has_na_def)
    with False nonempty mf show ?thesis
      unfolding cleaned_column_def by (simp only: if_False) blast
  qed
qed

lemma cleaned_frame_columns:
  "columns (map (\<lambda>(n, t). (n, clean_series t)) d) = columns d"
  by (induction d) (auto simp add: columns_def)

lemma cleaned_frame_as_claimed:
  "list_all2 cleaned_column (map snd d) (map snd (map (\<lambda>(n, t). (n, clean_series t)) d))"
  by (induction d) (auto simp add: clean_series_as_claimed)

text \<open>
  The median is computed in \<^verbatim>\<open>float64\<close>: of the two doubles nearest to 0.1 and 0.2
  it is the double nearest to half of their rounded sum, 0.15000000000000002. The
  median of \<^verbatim>\<open>inf\<close> and \<^verbatim>\<open>-inf\<close> is NaN, so that a column can have values present
  and no median to be filled with.
\<close>

lemma median_rounded:
  "median (Float64 [Some (round_f8 (1 / 10)), None, Some (round_f8 (2 / 10))])
     = Some (Finite (1351079888211149 / 9007199254740992)) \<and>
   (round_f8 (1 / 10) = Finite (3602879701896397 / 36028797018963968)) \<and>
   (round_f8 (2 / 10) = Finite (3602879701896397 / 18014398509481984)) \<and>
   (3602879701896397 / 36028797018963968 + 3602879701896397 / 18014398509481984) / 2
     \<noteq> (1351079888211149 / 9007199254740992 :: rat)"
  by code_simp

lemma clean_opposite_infinities:
  "median (Float64 [Some PosInf, None, Some NegInf]) = None \<and>
   present (Float64 [Some PosInf, None, Some NegInf]) = [Flt PosInf, Flt NegInf] \<and>
   clean_series (Float64 [Some PosInf, None, Some NegInf]) = Float64 [Some PosInf, None, Some NegInf]"
  by code_simp

text \<open>
  Claim C1, amended. On a frame with distinct column labels Clean does not fail and
  returns a frame with the same columns in the same order, each column filled on
  its own as \<open>cleaned_column\<close> says. A column of a numeric kind whose \<^verbatim>\<open>float64\<close>
  median is a number gets that median in every missing cell and has no missing
  cell left; when the median is NaN, which it is when no value is present, the
  column is returned as it is. Any other column gets a most frequent present
  value, or the empty string when it has none, and has no missing cell left.
\<close>

theorem clean_fills_columns:
  assumes "distinct (columns d)"
  shows "(h ! df = d \<longrightarrow>
          (\<exists>r h' cleaned. analyze_clean h df = (Inr r, h') \<and> body r = Xlsx cleaned \<and>
             columns cleaned = columns d \<and>
             list_all2 cleaned_column (map snd d) (map snd cleaned))) \<and>
         (\<exists>r cleaned. excel_clean upload d = Inr (Streaming r) \<and> body r = Xlsx cleaned \<and>
             columns cleaned = columns d \<and>
             list_all2 cleaned_column (map snd d) (map snd cleaned))"
proof (intro conjI impI)
  let ?c = "map (\<lambda>(n, t). (n, clean_series t)) d"
  assume "h ! df = d"
  with clean_loop_all [OF assms, of h]
  have "analyze_clean h df =
          (Inr \<lparr> body = Xlsx ?c, media_type = xlsx_media_type,
                 headers = [(''Content-Disposition'', ''attachment; filename=cleaned_data.xlsx'')] \<rparr>,
           h @ [?c])"
    by (simp add: analyze_clean_def df_copy_def)
  then show "\<exists>r h' cleaned. analyze_clean h df = (Inr r, h') \<and> body r = Xlsx cleaned \<and>
          columns cleaned = columns d \<and> list_all2 cleaned_column (map snd d) (map snd cleaned)"
    using cleaned_frame_columns [of d] cleaned_frame_as_claimed [of d] by simp
next
  let ?c = "map (\<lambda>(n, t). (n, clean_series t)) d"
  from clean_loop_all [OF assms, of "[d]"]
  have "excel_clean upload d =
          Inr (Streaming \<lparr> body = Xlsx ?c, media_type = xlsx_media_type,
                 headers = [(''x-summary'', ''Cleaned '' @ filename upload)] \<rparr>)"
    by (simp add: excel_clean_def df_copy_def)
  then show "\<exists>r cleaned. excel_clean upload d = Inr (Streaming r) \<and> body r = Xlsx cleaned \<and>
          columns cleaned = columns d \<and> list_all2 cleaned_column (map snd d) (map snd cleaned)"
    using cleaned_frame_columns [of d] cleaned_frame_as_claimed [of d] by simp
qed

theorem clean_fills_columns_witness:
  "distinct (columns [(''qty'', Float64 [Some (Finite 1), None, Some (Finite 4), Some (Finite 3)]),
       (''city'', Object [Str ''Rome'', NA, Str ''Oslo'', Str ''Rome'']),
       (''note'', Object [NA, NA, NA, NA])]) \<and>
   (\<exists>r h' cleaned. analyze_clean
     [[(''qty'', Float64 [Some (Finite 1), None, Some (Finite 4), Some (Finite 3)]),
       (''city'', Object [Str ''Rome'', NA, Str ''Oslo'', Str ''Rome'']),
       (''note'', Object [NA, NA, NA, NA])]] 0 = (Inr r, h') \<and> body r = Xlsx cleaned \<and>
      columns cleaned = [''qty'', ''city'', ''note''] \<and>
      list_all2 cleaned_column
        [Float64 [Some (Finite 1), None, Some (Finite 4), Some (Finite 3)],
         Object [Str ''Rome'', NA, Str ''Oslo'', Str ''Rome''], Object [NA, NA, NA, NA]]
        (map snd cleaned)) \<and>
   analyze_clean
     [[(''qty'', Float64 [Some (Finite 1), None, Some (Finite 4), Some (Finite 3)]),
       (''city'', Object [Str ''Rome'', NA, Str ''Oslo'', Str ''Rome'']),
       (''note'', Object [NA, NA, NA, NA])]] 0
   = (Inr \<lparr> body = Xlsx [(''qty'', Float64 [Some (Finite 1), Some (Finite 3), Some (Finite 4), Some (Finite 3)]),
       (''city'', Object [Str ''Rome'', Str ''Rome'', Str ''Oslo'', Str ''Rome'']),
       (''note'', Object [Str [], Str [], Str [], Str []])],
              media_type = xlsx_media_type,
              headers = [(''Content-Disposition'', ''attachment; filename=cleaned_data.xlsx'')] \<rparr>,
      [[(''qty'', Float64 [Some (Finite 1), None, Some (Finite 4), Some (Finite 3)]),
       (''city'', Object [Str ''Rome'', NA, Str ''Oslo'', Str ''Rome'']),
       (''note'', Object [NA, NA, NA, NA])],
       [(''qty'', Float64 [Some (Finite 1), Some (Finite 3), Some (Finite 4), Some (Finite 3)]),
       (''city'', Object [Str ''Rome'', Str ''Rome'', Str ''Oslo'', Str ''Rome'']),
       (''note'', Object [Str [], Str [], Str [], Str []])]])"
proof -
  have ev: "analyze_clean
     [[(''qty'', Float64 [Some (Finite 1), None, Some (Finite 4), Some (Finite 3)]),
       (''city'', Object [Str ''Rome'', NA, Str ''Oslo'', Str ''Rome'']),
       (''note'', Object [NA, NA, NA, NA])]] 0
   = (Inr \<lparr> body = Xlsx [(''qty'', Float64 [Some (Finite 1), Some (Finite 3), Some (Finite 4), Some (Finite 3)]),
       (''city'', Object [Str ''Rome'', Str ''Rome'', Str ''Oslo'', Str ''Rome'']),
       (''note'', Object [Str [], Str [], Str [], Str []])],
              media_type = xlsx_media_type,
              headers = [(''Content-Disposition'', ''attachment; filename=cleaned_data.xlsx'')] \<rparr>,
      [[(''qty'', Float64 [Some (Finite 1), None, Some (Finite 4), Some (Finite 3)]),
       (''city'', Object [Str ''Rome'', NA, Str ''Oslo'', Str ''Rome'']),
       (''note'', Object [NA, NA, NA, NA])],
       [(''qty'', Float64 [Some (Finite 1), Some (Finite 3), Some (Finite 4), Some (Finite 3)]),
       (''city'', Object [Str ''Rome'', Str ''Rome'', Str ''Oslo'', Str ''Rome'']),
       (''note'', Object [Str [], Str [], Str [], Str []])]])"
    by code_simp
  have dist: "distinct (columns [(''qty'', Float64 [Some (Finite 1), None, Some (Finite 4), Some (Finite 3)]),
       (''city'', Object [Str ''Rome'', NA, Str ''Oslo'', Str ''Rome'']),
       (''note'', Object [NA, NA, NA, NA])])"
    by (simp add: columns_def)
  from clean_fills_columns [OF dist, of
     "[[(''qty'', Float64 [Some (Finite 1), None, Some (Finite 4), Some (Finite 3)]),
       (''city'', Object [Str ''Rome'', NA, Str ''Oslo'', Str ''Rome'']),
       (''note'', Object [NA, NA, NA, NA])]]" 0]
  have "\<exists>r h' cleaned. analyze_clean
     [[(''qty'', Float64 [Some (Finite 1), None, Some (Finite 4), Some (Finite 3)]),
       (''city'', Object [Str ''Rome'', NA, Str ''Oslo'', Str ''Rome'']),
       (''note'', Object [NA, NA, NA, NA])]] 0 = (Inr r, h') \<and> body r = Xlsx cleaned \<and>
      columns cleaned = [''qty'', ''city'', ''note''] \<and>
      list_all2 cleaned_column
        [Float64 [Some (Finite 1), None, Some (Finite 4), Some (Finite 3)],
         Object [Str ''Rome'', NA, Str ''Oslo'', Str ''Rome''], Object [NA, NA, NA, NA]]
        (map snd cleaned)"
    by (simp add: columns_def)
  with dist ev show ?thesis by (intro conjI)
qed

text \<open>
  Claim C1 as first stated promises that no numeric column has a missing cell after
  Clean. A \<^verbatim>\<open>float64\<close> column in which every cell is missing has the median NaN, and
  filling with NaN leaves every cell missing: the column \<^verbatim>\<open>score\<close> below is numeric
  and comes back with both cells missing.
\<close>

theorem clean_all_missing_numeric:
  "kind (dtype_of (Float64 [None, None])) \<in> set ''biufc'' \<and>
   analyze_clean [[(''id'', Int64 [1, 2]), (''score'', Float64 [None, None])]] 0
   = (Inr \<lparr> body = Xlsx [(''id'', Int64 [1, 2]), (''score'', Float64 [None, None])],
              media_type = xlsx_media_type,
              headers = [(''Content-Disposition'', ''attachment; filename=cleaned_data.xlsx'')] \<rparr>,
      [[(''id'', Int64 [1, 2]), (''score'', Float64 [None, None])],
       [(''id'', Int64 [1, 2]), (''score'', Float64 [None, None])]]) \<and>
   values_of (Float64 [None, None]) = [NA, NA] \<and> isna NA"
  by code_simp

lemma clean_loop_id:
  assumes "cleaned < length h" and "\<forall>(col, s) \<in> set (h ! cleaned). \<not> has_na s"
      and "set cols \<subseteq> set (columns (h ! cleaned))"
  shows "clean_loop cols h cleaned = Inr h"
  using assms(3)
proof (induction cols)
  case Nil
  then show ?case by simp
next
  case (Cons col cols)
  from Cons.prems have "col \<in> fst ` set (h ! cleaned)" by (simp add: columns_def)
  then obtain s where s: "map_of (h ! cleaned) col = Some s"
    by (metis map_of_eq_None_iff not_Some_eq)
  then have "(col, s) \<in> set (h ! cleaned)" by (rule map_of_SomeD)
  with assms(2) have "\<not> has_na s" by auto
  then have "fillna s (fill_value s) = s" by (rule fillna_no_na)
  with s have "setitem h cleaned col (fillna s (fill_value s)) = h"
    by (simp add: setitem_def update_triv)
  with s Cons show ?case by simp
qed

text \<open>
  Claim C4. On a frame with no missing cell Clean returns the frame itself: the
  same columns, in the same order, with the same cells.
\<close>

theorem clean_without_missing:
  assumes "list_all (\<lambda>(col, s). \<not> has_na s) d"
  shows "(h ! df = d \<longrightarrow>
            analyze_clean h df =
              (Inr \<lparr> body = Xlsx d, media_type = xlsx_media_type,
                     headers = [(''Content-Disposition'',
                                 ''attachment; filename=cleaned_data.xlsx'')] \<rparr>,
               h @ [d])) \<and>
         excel_clean upload d =
           Inr (Streaming \<lparr> body = Xlsx d, media_type = xlsx_media_type,
                  headers = [(''x-summary'', ''Cleaned '' @ filename upload)] \<rparr>)"
proof -
  have loop: "clean_loop (columns d) (g @ [d]) (length g) = Inr (g @ [d])" for g
    using assms by (intro clean_loop_id) (simp_all add: list_all_iff)
  from loop [of h] loop [of "[d]"] show ?thesis
    by (simp add: analyze_clean_def excel_clean_def df_copy_def)
qed

theorem clean_without_missing_witness:
  "analyze_clean
     [[(''qty'', Float64 [Some (Finite 1), Some (Finite 4)]), (''city'', Object [Str ''Rome'', Str ''Oslo'']),
       (''n'', Int64 [7, 9])]] 0
   = (Inr \<lparr> body = Xlsx [(''qty'', Float64 [Some (Finite 1), Some (Finite 4)]),
                            (''city'', Object [Str ''Rome'', Str ''Oslo'']), (''n'', Int64 [7, 9])],
              media_type = xlsx_media_type,
              headers = [(''Content-Disposition'', ''attachment; filename=cleaned_data.xlsx'')] \<rparr>,
      [[(''qty'', Float64 [Some (Finite 1), Some (Finite 4)]), (''city'', Object [Str ''Rome'', Str ''Oslo'']),
        (''n'', Int64 [7, 9])],
       [(''qty'', Float64 [Some (Finite 1), Some (Finite 4)]), (''city'', Object [Str ''Rome'', Str ''Oslo'']),
        (''n'', Int64 [7, 9])]])"
  using clean_without_missing [of
     "[(''qty'', Float64 [Some (Finite 1), Some (Finite 4)]), (''city'', Object [Str ''Rome'', Str ''Oslo'']),
       (''n'', Int64 [7, 9])]"
     "[[(''qty'', Float64 [Some (Finite 1), Some (Finite 4)]), (''city'', Object [Str ''Rome'', Str ''Oslo'']),
       (''n'', Int64 [7, 9])]]" 0]
  by (simp add: has_na_def float_cell_def)
section \<open>The shared table\<close>

lemma clean_loop_frame:
  "clean_loop cols h cleaned = Inr h' \<Longrightarrow>
     length h' = length h \<and> (\<forall>i. i \<noteq> cleaned \<longrightarrow> h' ! i = h ! i)"
proof (induction cols arbitrary: h)
  case Nil
  then show ?case by simp
next
  case (Cons col cols)
  from Cons.prems obtain s where s: "map_of (h ! cleaned) col = Some s"
    and run: "clean_loop cols (setitem h cleaned col (fillna s (fill_value s))) cleaned = Inr h'"
    by (auto split: option.splits)
  from Cons.IH [OF run] show ?case by (simp add: setitem_def)
qed

lemma analyze_clean_frame:
  assumes "analyze_clean h df = (r, h')"
  shows "length h' = Suc (length h) \<and> (\<forall>i < length h. h' ! i = h ! i) \<and>
         (\<forall>resp. r = Inr resp \<longrightarrow> body resp = Xlsx (h' ! length h))"
proof (cases "clean_loop (columns (h ! df)) (h @ [h ! df]) (length h)")
  case (Inl e)
  with assms show ?thesis
    by (auto simp add: analyze_clean_def df_copy_def nth_append)
next
  case (Inr h2)
  from clean_loop_frame [OF Inr] have "length h2 = Suc (length h)"
    and "\<forall>i < length h. h2 ! i = h ! i" by (auto simp add: nth_append)
  with assms Inr show ?thesis
    by (auto simp add: analyze_clean_def df_copy_def)
qed

text \<open>
  Claim C9. Whatever the chat message, \<^verbatim>\<open>process_command\<close> leaves the global
  reference and every frame of the store, the shared table among them, as they
  were. Clean works on a copy: the frame it returns is a new one at the end of the
  store, and the frames that were there before are unchanged.
\<close>

theorem handlers_leave_table:
  "(process_command np_sum st command = (r, st') \<longrightarrow>
      dataframe_global st' = dataframe_global st \<and>
      (\<forall>df < length (heap st). heap st' ! df = heap st ! df)) \<and>
   (analyze_clean h df = (r', h') \<longrightarrow>
      length h' = Suc (length h) \<and> (\<forall>i < length h. h' ! i = h ! i) \<and>
      (\<forall>resp. r' = Inr resp \<longrightarrow> body resp = Xlsx (h' ! length h)))"
proof (intro conjI impI)
  assume pc: "process_command np_sum st command = (r, st')"
  have "st' = st \<or> (\<exists>df x. dataframe_global st = Some df \<and> analyze_clean (heap st) df = (x, heap st')
             \<and> st' = st\<lparr>heap := heap st'\<rparr>)"
    using pc
    by (auto simp add: process_command_def Let_def split: option.splits if_splits prod.splits)
  then show "dataframe_global st' = dataframe_global st"
    by (metis (no_types, lifting) state.select_convs(2) state.surjective state.update_convs(1))
  from \<open>st' = st \<or> _\<close> show "\<forall>df < length (heap st). heap st' ! df = heap st ! df"
    using analyze_clean_frame by blast
next
  assume "analyze_clean h df = (r', h')"
  from analyze_clean_frame [OF this]
  show "length h' = Suc (length h)" and "\<forall>i < length h. h' ! i = h ! i" 
    and "\<forall>resp. r' = Inr resp \<longrightarrow> body resp = Xlsx (h' ! length h)"
    by blast+
qed


theorem handlers_leave_table_witness:
  "heap (snd (process_command seq_sum
      \<lparr>heap = [[(''qty'', Float64 [Some (Finite 1), None, Some (Finite 3)])]], dataframe_global = Some 0\<rparr> ''clean'')) ! 0
     = [(''qty'', Float64 [Some (Finite 1), None, Some (Finite 3)])] \<and>
   dataframe_global (snd (process_command seq_sum
      \<lparr>heap = [[(''qty'', Float64 [Some (Finite 1), None, Some (Finite 3)])]], dataframe_global = Some 0\<rparr> ''clean''))
     = Some 0 \<and>
   fst (process_command seq_sum
      \<lparr>heap = [[(''qty'', Float64 [Some (Finite 1), None, Some (Finite 3)])]], dataframe_global = Some 0\<rparr> ''clean'')
     = Inr (Streaming \<lparr> body = Xlsx [(''qty'', Float64 [Some (Finite 1), Some (Finite 2), Some (Finite 3)])],
              media_type = xlsx_media_type,
              headers = [(''Content-Disposition'', ''attachment; filename=cleaned_data.xlsx'')] \<rparr>)"
proof -
  let ?st = "\<lparr>heap = [[(''qty'', Float64 [Some (Finite 1), None, Some (Finite 3)])]], dataframe_global = Some 0\<rparr>"
  have ev: "fst (process_command seq_sum ?st ''clean'')
     = Inr (Streaming \<lparr> body = Xlsx [(''qty'', Float64 [Some (Finite 1), Some (Finite 2), Some (Finite 3)])],
              media_type = xlsx_media_type,
              headers = [(''Content-Disposition'', ''attachment; filename=cleaned_data.xlsx'')] \<rparr>)"
    by code_simp
  from handlers_leave_table [of seq_sum ?st "''clean''" "fst (process_command seq_sum ?st ''clean'')"
         "snd (process_command seq_sum ?st ''clean'')"]
  have "dataframe_global (snd (process_command seq_sum ?st ''clean'')) = dataframe_global ?st \<and>
        (\<forall>df < length (heap ?st). heap (snd (process_command seq_sum ?st ''clean'')) ! df = heap ?st ! df)"
    by simp
  with ev show ?thesis by simp
qed

end
